theory Spec2Isabelle
  imports Complex_Main "HOL-Library.Word"
begin

section \<open>FreeLSS: the geometry helpers and unit macros of Main.h\<close>

text \<open>
  \<^verbatim>\<open>Main.h\<close> declares the data types of the scanner pipeline and defines, inline, the
  vector operations \<^verbatim>\<open>Vector3::normalize\<close>, \<^verbatim>\<open>Vector3::dot\<close>, \<^verbatim>\<open>Vector3::cross\<close> and the
  angle macros. The bodies of \<^verbatim>\<open>DataPoint::readNextFrame\<close>, \<^verbatim>\<open>DataPoint::lowpassFilter\<close>
  and \<^verbatim>\<open>DataPoint::computeAverage\<close> are not part of the header; only their declarations are.
\<close>

subsection \<open>The scalar type\<close>

text \<open>
  \<^verbatim>\<open>typedef float real32; typedef float real;\<close>
  The model of the C type is exact: a finite value is a real number (no rounding, no
  overflow), and the three special values of IEEE 754 arithmetic are kept, because the
  source divides without guarding the divisor. Signed zeros are not distinguished: a zero
  divisor counts as \<open>+0\<close>, which is the only zero a square root of a sum of squares yields.
\<close>

datatype real32 = Fin real | PInf | NInf | NaN

instantiation real32 :: "{plus, minus, uminus, times, inverse, ord}"
begin

fun uminus_real32 :: "real32 \<Rightarrow> real32" where
  "uminus_real32 (Fin a) = Fin (- a)"
| "uminus_real32 PInf = NInf"
| "uminus_real32 NInf = PInf"
| "uminus_real32 NaN = NaN"

fun plus_real32 :: "real32 \<Rightarrow> real32 \<Rightarrow> real32" where
  "plus_real32 NaN _ = NaN"
| "plus_real32 _ NaN = NaN"
| "plus_real32 (Fin a) (Fin b) = Fin (a + b)"
| "plus_real32 PInf NInf = NaN"
| "plus_real32 NInf PInf = NaN"
| "plus_real32 PInf _ = PInf"
| "plus_real32 _ PInf = PInf"
| "plus_real32 NInf _ = NInf"
| "plus_real32 _ NInf = NInf"

definition minus_real32 :: "real32 \<Rightarrow> real32 \<Rightarrow> real32" where
  "minus_real32 a b = a + (- b)"

fun times_real32 :: "real32 \<Rightarrow> real32 \<Rightarrow> real32" where
  "times_real32 NaN _ = NaN"
| "times_real32 _ NaN = NaN"
| "times_real32 (Fin a) (Fin b) = Fin (a * b)"
| "times_real32 PInf (Fin b) = (if b = 0 then NaN else if 0 < b then PInf else NInf)"
| "times_real32 NInf (Fin b) = (if b = 0 then NaN else if 0 < b then NInf else PInf)"
| "times_real32 (Fin a) PInf = (if a = 0 then NaN else if 0 < a then PInf else NInf)"
| "times_real32 (Fin a) NInf = (if a = 0 then NaN else if 0 < a then NInf else PInf)"
| "times_real32 PInf PInf = PInf"
| "times_real32 PInf NInf = NInf"
| "times_real32 NInf PInf = NInf"
| "times_real32 NInf NInf = PInf"

fun divide_real32 :: "real32 \<Rightarrow> real32 \<Rightarrow> real32" where
  "divide_real32 NaN _ = NaN"
| "divide_real32 _ NaN = NaN"
| "divide_real32 (Fin a) (Fin b) =
     (if b = 0 then (if a = 0 then NaN else if 0 < a then PInf else NInf)
      else Fin (a / b))"
| "divide_real32 (Fin a) PInf = Fin 0"
| "divide_real32 (Fin a) NInf = Fin 0"
| "divide_real32 PInf (Fin b) = (if b < 0 then NInf else PInf)"
| "divide_real32 NInf (Fin b) = (if b < 0 then PInf else NInf)"
| "divide_real32 _ _ = NaN"

definition inverse_real32 :: "real32 \<Rightarrow> real32" where
  "inverse_real32 a = divide (Fin 1) a"

fun less_real32 :: "real32 \<Rightarrow> real32 \<Rightarrow> bool" where
  "less_real32 NaN _ = False"
| "less_real32 _ NaN = False"
| "less_real32 (Fin a) (Fin b) = (a < b)"
| "less_real32 _ NInf = False"
| "less_real32 PInf _ = False"
| "less_real32 _ _ = True"

fun less_eq_real32 :: "real32 \<Rightarrow> real32 \<Rightarrow> bool" where
  "less_eq_real32 NaN _ = False"
| "less_eq_real32 _ NaN = False"
| "less_eq_real32 (Fin a) (Fin b) = (a \<le> b)"
| "less_eq_real32 NInf _ = True"
| "less_eq_real32 _ PInf = True"
| "less_eq_real32 _ _ = False"

instance ..

end

text \<open>\<^verbatim>\<open>sqrt\<close> of \<^verbatim>\<open>math.h\<close>: a negative argument has no root.\<close>

fun fsqrt :: "real32 \<Rightarrow> real32" where
  "fsqrt (Fin a) = (if a < 0 then NaN else Fin (sqrt a))"
| "fsqrt PInf = PInf"
| "fsqrt NInf = NaN"
| "fsqrt NaN = NaN"

subsection \<open>Angle macros\<close>

text \<open>
  \<^verbatim>\<open>
  #define PI 3.14159265359
  #define RADIANS_TO_DEGREES(r) ((r / (2 * PI)) * 360)
  #define DEGREES_TO_RADIANS(d) ((d / 360.0) * (2 * PI))
  \<close>
  The macros are untyped text; \<^verbatim>\<open>PI\<close> and \<^verbatim>\<open>360.0\<close> make both bodies floating-point
  expressions, read here over the exact reals. The value that the bodies use for \<^verbatim>\<open>PI\<close>
  is the first argument of the model, so that a statement can range over it; the header's
  own value is \<open>PI\<close>.
\<close>

definition PI :: real where
  "PI = 3.14159265359"

definition RADIANS_TO_DEGREES :: "real \<Rightarrow> real \<Rightarrow> real" where
  "RADIANS_TO_DEGREES p r = ((r / (2 * p)) * 360)"

definition DEGREES_TO_RADIANS :: "real \<Rightarrow> real \<Rightarrow> real" where
  "DEGREES_TO_RADIANS p d = ((d / 360.0) * (2 * p))"

subsection \<open>Vector3\<close>

record Vector3 =
  x :: real32
  y :: real32
  z :: real32

text \<open>The two constructors: \<^verbatim>\<open>Vector3()\<close> and \<^verbatim>\<open>Vector3(real x, real y, real z)\<close>.\<close>

definition Vector3_0 :: Vector3 where
  "Vector3_0 = \<lparr>Vector3.x = Fin 0, y = Fin 0, z = Fin 0\<rparr>"

definition Vector3_3 :: "real32 \<Rightarrow> real32 \<Rightarrow> real32 \<Rightarrow> Vector3" where
  "Vector3_3 a b c = \<lparr>Vector3.x = a, y = b, z = c\<rparr>"

text \<open>
  \<^verbatim>\<open>
  void normalize()
  {
      real len = sqrt(x * x + y * y + z * z);
      x /= len;
      y /= len;
      z /= len;
  }
  \<close>
  The method updates the object in place; the model returns the updated object.
\<close>

definition normalize :: "Vector3 \<Rightarrow> Vector3" where
  "normalize this =
     (let len = fsqrt (x this * x this + y this * y this + z this * z this)
      in this\<lparr>Vector3.x := x this / len, y := y this / len, z := z this / len\<rparr>)"

text \<open>\<^verbatim>\<open>real dot(const Vector3& a) const { return x * a.x + y * a.y + z * a.z; }\<close>\<close>

definition dot :: "Vector3 \<Rightarrow> Vector3 \<Rightarrow> real32" where
  "dot this a = x this * x a + y this * y a + z this * z a"

text \<open>
  \<^verbatim>\<open>
  void cross (Vector3& out, const Vector3& v) const
  {
      out.x = y * v.z - z * v.y;
      out.y = z * v.x - x * v.z;
      out.z = x * v.y - y * v.x;
  }
  \<close>
  The result is written into \<^verbatim>\<open>out\<close>, which the model takes as it was before the call and
  returns updated. \<^verbatim>\<open>out\<close> is an object of its own here: a call that passes the receiver
  or \<^verbatim>\<open>v\<close> itself as \<^verbatim>\<open>out\<close> overwrites an operand between the three assignments and is
  not described by this function.
\<close>

definition cross :: "Vector3 \<Rightarrow> Vector3 \<Rightarrow> Vector3 \<Rightarrow> Vector3" where
  "cross this out v =
     out\<lparr>Vector3.x := y this * z v - z this * y v,
         y := z this * x v - x this * z v,
         z := x this * y v - y this * x v\<rparr>"

subsection \<open>The pipeline records\<close>

text \<open>
  \<^verbatim>\<open>struct PixelLocation\<close>, \<^verbatim>\<open>struct ColoredPoint\<close> and \<^verbatim>\<open>struct DataPoint\<close>, field by
  field; \<^verbatim>\<open>unsigned char\<close>, \<^verbatim>\<open>uint8\<close>, \<^verbatim>\<open>uint16\<close> and \<^verbatim>\<open>uint32\<close> are words of 8, 8, 16
  and 32 bits.
\<close>

record PixelLocation =
  x :: real32
  y :: real32

record ColoredPoint =
  x :: real32
  y :: real32
  z :: real32
  normal :: Vector3
  r :: "8 word"
  g :: "8 word"
  b :: "8 word"

record DataPoint =
  pixel :: PixelLocation
  point :: ColoredPoint
  rotation :: real32
  frame :: "16 word"
  laserSide :: "8 word"
  pseudoFrame :: "16 word"
  index :: "32 word"

subsection \<open>DataPoint::computeAverage and DataPoint::lowpassFilter\<close>

text \<open>
  The header declares
  \<^verbatim>\<open>
  static void lowpassFilter(std::vector<DataPoint>& output, std::vector<DataPoint>& frame,
                            unsigned maxNumRows, unsigned numRowBins);
  static void computeAverage(const std::vector<DataPoint>& bin, DataPoint& out);
  \<close>
  and holds neither body. The definitions of this subsection follow the words of the
  specification, section 4.3.
\<close>

definition averageReal :: "real32 list \<Rightarrow> real32" where
  "averageReal vs = foldl (+) (Fin 0) vs / Fin (real (length vs))"

definition averageByte :: "8 word list \<Rightarrow> 8 word" where
  "averageByte vs = word_of_nat (sum_list (map unat vs) div length vs)"

text \<open>
  Modelled from the spec: the body of \<^verbatim>\<open>DataPoint::computeAverage\<close>. The specification
  has it compute the average of pixel location and colour across the members of a
  bin. The result goes to the parameter \<^verbatim>\<open>out\<close>; no other field is named, so the other
  fields of \<^verbatim>\<open>out\<close> stay as they were passed. The colour channels are bytes, averaged here
  by truncating division. The function is meant for a bin with a member, which is how
  \<open>lowpassFilter\<close> calls it.
\<close>

definition computeAverage :: "DataPoint list \<Rightarrow> DataPoint \<Rightarrow> DataPoint" where
  "computeAverage bin out =
     out\<lparr>pixel := \<lparr>PixelLocation.x = averageReal (map (\<lambda>p. PixelLocation.x (pixel p)) bin),
                    y = averageReal (map (\<lambda>p. PixelLocation.y (pixel p)) bin)\<rparr>,
         point := (point out)\<lparr>r := averageByte (map (\<lambda>p. r (point p)) bin),
                              g := averageByte (map (\<lambda>p. g (point p)) bin),
                              b := averageByte (map (\<lambda>p. b (point p)) bin)\<rparr>\<rparr>"

text \<open>
  Modelled from the spec: the bins of \<^verbatim>\<open>DataPoint::lowpassFilter\<close>. There are
  \<^verbatim>\<open>numRowBins\<close> bins, each covering an equal span of the \<^verbatim>\<open>maxNumRows\<close> source rows: bin
  \<open>k\<close> covers the rows from \<open>k * span\<close> up to, and not including, \<open>(k + 1) * span\<close>. The
  boundaries depend on the two parameters only.
\<close>

definition binSpan :: "32 word \<Rightarrow> 32 word \<Rightarrow> real32" where
  "binSpan maxNumRows numRowBins =
     Fin (real (unat maxNumRows)) / Fin (real (unat numRowBins))"

definition binMembers :: "DataPoint list \<Rightarrow> 32 word \<Rightarrow> 32 word \<Rightarrow> nat \<Rightarrow> DataPoint list" where
  "binMembers aFrame maxNumRows numRowBins k =
     filter (\<lambda>p. Fin (real k) * binSpan maxNumRows numRowBins \<le> PixelLocation.y (pixel p)
                \<and> PixelLocation.y (pixel p) < Fin (real (Suc k)) * binSpan maxNumRows numRowBins)
       aFrame"

text \<open>The indices of the bins that hold at least one point of the frame.\<close>

definition populatedBins :: "DataPoint list \<Rightarrow> 32 word \<Rightarrow> 32 word \<Rightarrow> nat list" where
  "populatedBins aFrame maxNumRows numRowBins =
     filter (\<lambda>k. binMembers aFrame maxNumRows numRowBins k \<noteq> []) [0..<unat numRowBins]"

text \<open>
  Modelled from the spec: the body of \<^verbatim>\<open>DataPoint::lowpassFilter\<close>. The bins are visited
  in row order; a bin with members appends one representative, the \<open>computeAverage\<close> of
  its members, to \<^verbatim>\<open>output\<close>, and a bin without members appends nothing. The
  specification is silent on the fields of a representative other than pixel location
  and colour: \<open>init\<close> stands for whatever the body hands to \<open>computeAverage\<close> as
  \<^verbatim>\<open>out\<close> for a given bin. The parameter \<^verbatim>\<open>frame\<close> is \<open>aFrame\<close> here, the name
  \<open>frame\<close> being the field of \<open>DataPoint\<close>.
\<close>

function lowpassFilter_bins ::
  "(DataPoint list \<Rightarrow> DataPoint) \<Rightarrow> DataPoint list \<Rightarrow> 32 word \<Rightarrow> 32 word \<Rightarrow> nat
     \<Rightarrow> DataPoint list \<Rightarrow> DataPoint list" where
  "lowpassFilter_bins init aFrame maxNumRows numRowBins k output =
     (if k < unat numRowBins then
        let bin = binMembers aFrame maxNumRows numRowBins k
        in lowpassFilter_bins init aFrame maxNumRows numRowBins (Suc k)
             (if bin = [] then output else output @ [computeAverage bin (init bin)])
      else output)"
  by pat_completeness auto
termination
  by (relation "measure (\<lambda>(init, aFrame, maxNumRows, numRowBins, k, output). unat numRowBins - k)")
     auto

declare lowpassFilter_bins.simps [simp del]

definition lowpassFilter ::
  "(DataPoint list \<Rightarrow> DataPoint) \<Rightarrow> DataPoint list \<Rightarrow> DataPoint list \<Rightarrow> 32 word \<Rightarrow> 32 word
     \<Rightarrow> DataPoint list" where
  "lowpassFilter init output aFrame maxNumRows numRowBins =
     lowpassFilter_bins init aFrame maxNumRows numRowBins 0 output"

section \<open>Properties\<close>

subsection \<open>Arithmetic on finite values\<close>

lemma Fin_minus: "Fin u - Fin v = Fin (u - v)"
  by (simp add: minus_real32_def)

lemma sum_squares_pos:
  fixes u v w :: real
  assumes "u \<noteq> 0 \<or> v \<noteq> 0 \<or> w \<noteq> 0"
  shows "0 < u * u + v * v + w * w"
proof -
  have "u * u + v * v + w * w = u\<^sup>2 + v\<^sup>2 + w\<^sup>2"
    by (simp add: power2_eq_square)
  moreover have "0 < u\<^sup>2 + v\<^sup>2 + w\<^sup>2"
    using assms by (metis sum_power2_gt_zero_iff add.assoc add_pos_nonneg
        add_nonneg_pos zero_le_power2 zero_less_power2 add.commute)
  ultimately show ?thesis by simp
qed

subsection \<open>Vector3::normalize\<close>

text \<open>
  Claim C8. \<^verbatim>\<open>normalize\<close> divides each component by the Euclidean length and has no guard
  for a zero length. On a vector with real components \<open>u\<close>, \<open>v\<close>, \<open>w\<close> that are not all
  zero the result has the components \<open>u / len\<close>, \<open>v / len\<close>, \<open>w / len\<close>, where \<open>len\<close> is
  the square root of \<open>u * u + v * v + w * w\<close>, and it is a unit vector: its dot product
  with itself is 1. On the zero vector, which is also what the default constructor
  builds, the length is 0, every component becomes \<open>0 / 0\<close>, and the result has three
  NaN components: the call neither fails nor leaves the vector as it was.
\<close>

theorem normalize_unit_or_nan:
  "(u \<noteq> 0 \<or> v \<noteq> 0 \<or> w \<noteq> 0 \<longrightarrow>
      normalize (Vector3_3 (Fin u) (Fin v) (Fin w))
        = Vector3_3 (Fin (u / sqrt (u * u + v * v + w * w)))
                    (Fin (v / sqrt (u * u + v * v + w * w)))
                    (Fin (w / sqrt (u * u + v * v + w * w)))
      \<and> dot (normalize (Vector3_3 (Fin u) (Fin v) (Fin w)))
            (normalize (Vector3_3 (Fin u) (Fin v) (Fin w))) = Fin 1)
   \<and> normalize (Vector3_3 (Fin 0) (Fin 0) (Fin 0)) = Vector3_3 NaN NaN NaN
   \<and> normalize Vector3_0 = Vector3_3 NaN NaN NaN
   \<and> normalize Vector3_0 \<noteq> Vector3_0"
proof (intro conjI impI)
  assume nz: "u \<noteq> 0 \<or> v \<noteq> 0 \<or> w \<noteq> 0"
  define s where "s = u * u + v * v + w * w"
  define l where "l = sqrt s"
  have s_pos: "0 < s"
    unfolding s_def using nz by (rule sum_squares_pos)
  then have l_pos: "0 < l"
    by (simp add: l_def)
  have l_sq: "l * l = s"
    using s_pos by (simp add: l_def)
  have n: "normalize (Vector3_3 (Fin u) (Fin v) (Fin w))
             = Vector3_3 (Fin (u / l)) (Fin (v / l)) (Fin (w / l))"
    using s_pos l_pos
    by (simp add: normalize_def Vector3_3_def s_def [symmetric] l_def [symmetric])
  show "normalize (Vector3_3 (Fin u) (Fin v) (Fin w))
        = Vector3_3 (Fin (u / sqrt (u * u + v * v + w * w)))
                    (Fin (v / sqrt (u * u + v * v + w * w)))
                    (Fin (w / sqrt (u * u + v * v + w * w)))"
    using n by (simp only: l_def s_def)
  have "(u / l) * (u / l) + (v / l) * (v / l) + (w / l) * (w / l) = s / (l * l)"
    by (simp add: s_def add_divide_distrib)
  also have "\<dots> = 1"
    using s_pos by (simp add: l_sq)
  finally have "(u / l) * (u / l) + (v / l) * (v / l) + (w / l) * (w / l) = 1" .
  then have "dot (Vector3_3 (Fin (u / l)) (Fin (v / l)) (Fin (w / l)))
                 (Vector3_3 (Fin (u / l)) (Fin (v / l)) (Fin (w / l))) = Fin 1"
    by (simp add: dot_def Vector3_3_def)
  then show "dot (normalize (Vector3_3 (Fin u) (Fin v) (Fin w)))
          (normalize (Vector3_3 (Fin u) (Fin v) (Fin w))) = Fin 1"
    by (simp only: n)
next
  show "normalize (Vector3_3 (Fin 0) (Fin 0) (Fin 0)) = Vector3_3 NaN NaN NaN"
    by (simp add: normalize_def Vector3_3_def)
next
  show "normalize Vector3_0 = Vector3_3 NaN NaN NaN"
    by (simp add: normalize_def Vector3_3_def Vector3_0_def)
next
  show "normalize Vector3_0 \<noteq> Vector3_0"
    by (simp add: normalize_def Vector3_0_def)
qed

theorem normalize_unit_or_nan_witness:
  "normalize (Vector3_3 (Fin 3) (Fin 4) (Fin 0))
     = Vector3_3 (Fin (3 / 5)) (Fin (4 / 5)) (Fin 0)
   \<and> dot (normalize (Vector3_3 (Fin 3) (Fin 4) (Fin 0)))
         (normalize (Vector3_3 (Fin 3) (Fin 4) (Fin 0))) = Fin 1
   \<and> normalize Vector3_0 = Vector3_3 NaN NaN NaN"
proof -
  have nz: "(3::real) \<noteq> 0 \<or> (4::real) \<noteq> 0 \<or> (0::real) \<noteq> 0"
    by simp
  have len: "sqrt 25 = 5"
    using real_sqrt_abs [of 5] by simp
  from normalize_unit_or_nan [of 3 4 0] nz
  have comps: "normalize (Vector3_3 (Fin 3) (Fin 4) (Fin 0))
                 = Vector3_3 (Fin (3 / sqrt (3 * 3 + 4 * 4 + 0 * 0)))
                             (Fin (4 / sqrt (3 * 3 + 4 * 4 + 0 * 0)))
                             (Fin (0 / sqrt (3 * 3 + 4 * 4 + 0 * 0)))"
    and unit: "dot (normalize (Vector3_3 (Fin 3) (Fin 4) (Fin 0)))
                   (normalize (Vector3_3 (Fin 3) (Fin 4) (Fin 0))) = Fin 1"
    and zero: "normalize Vector3_0 = Vector3_3 NaN NaN NaN"
    by blast+
  have "Vector3_3 (Fin (3 / sqrt (3 * 3 + 4 * 4 + 0 * 0)))
                  (Fin (4 / sqrt (3 * 3 + 4 * 4 + 0 * 0)))
                  (Fin (0 / sqrt (3 * 3 + 4 * 4 + 0 * 0)))
          = Vector3_3 (Fin (3 / 5)) (Fin (4 / 5)) (Fin 0)"
    by (simp add: len)
  with comps have "normalize (Vector3_3 (Fin 3) (Fin 4) (Fin 0))
                     = Vector3_3 (Fin (3 / 5)) (Fin (4 / 5)) (Fin 0)"
    by (rule trans)
  with unit zero show ?thesis
    by blast
qed

subsection \<open>Vector3::cross\<close>

text \<open>
  Claim C9. For operands with real components, \<^verbatim>\<open>a.cross(out, b)\<close> leaves in \<^verbatim>\<open>out\<close> the
  right-handed cross product of \<open>a\<close> and \<open>b\<close>, whatever \<^verbatim>\<open>out\<close> held before: its dot
  product with \<open>a\<close> and with \<open>b\<close> is 0, and exchanging the operands negates each
  component.
\<close>

theorem cross_orthogonal_anticommutative:
  fixes a1 a2 a3 b1 b2 b3 :: real
  shows "dot (cross (Vector3_3 (Fin a1) (Fin a2) (Fin a3)) out (Vector3_3 (Fin b1) (Fin b2) (Fin b3)))
             (Vector3_3 (Fin a1) (Fin a2) (Fin a3)) = Fin 0
       \<and> dot (cross (Vector3_3 (Fin a1) (Fin a2) (Fin a3)) out (Vector3_3 (Fin b1) (Fin b2) (Fin b3)))
             (Vector3_3 (Fin b1) (Fin b2) (Fin b3)) = Fin 0
       \<and> cross (Vector3_3 (Fin a1) (Fin a2) (Fin a3)) out (Vector3_3 (Fin b1) (Fin b2) (Fin b3))
           = Vector3_3 (Fin (a2 * b3 - a3 * b2)) (Fin (a3 * b1 - a1 * b3)) (Fin (a1 * b2 - a2 * b1))
       \<and> cross (Vector3_3 (Fin b1) (Fin b2) (Fin b3)) out (Vector3_3 (Fin a1) (Fin a2) (Fin a3))
           = Vector3_3 (- Fin (a2 * b3 - a3 * b2)) (- Fin (a3 * b1 - a1 * b3)) (- Fin (a1 * b2 - a2 * b1))"
  apply (simp add: cross_def dot_def Vector3_3_def Fin_minus)
  apply (simp add: algebra_simps)
  done

subsection \<open>RADIANS_TO_DEGREES and DEGREES_TO_RADIANS\<close>

text \<open>
  Claim C10. Converting radians to degrees and back returns the value one started from,
  for every real \<open>rad\<close> and every nonzero value of the constant \<^verbatim>\<open>PI\<close>: the factors
  \<open>2 * PI\<close> and \<open>360\<close> cancel. Each macro body is parenthesised as a whole, so the
  nested call expands to the composition of the two bodies.
\<close>

theorem degrees_to_radians_of_radians_to_degrees:
  "p \<noteq> 0 \<Longrightarrow> DEGREES_TO_RADIANS p (RADIANS_TO_DEGREES p rad) = rad"
  by (simp add: DEGREES_TO_RADIANS_def RADIANS_TO_DEGREES_def)

theorem degrees_to_radians_of_radians_to_degrees_witness:
  "PI \<noteq> 0 \<and> DEGREES_TO_RADIANS PI (RADIANS_TO_DEGREES PI 1) = 1"
proof -
  have h: "PI \<noteq> 0" by (simp add: PI_def)
  show ?thesis using h degrees_to_radians_of_radians_to_degrees [OF h, of 1] by simp
qed

subsection \<open>DataPoint::lowpassFilter\<close>

text \<open>
  The loop over the bins, started at bin \<open>k\<close>, appends the representatives of the
  populated bins from \<open>k\<close> on, in bin order.
\<close>

lemma lowpassFilter_bins_eq:
  "lowpassFilter_bins init aFrame maxNumRows numRowBins k out =
     out @ map (\<lambda>j. computeAverage (binMembers aFrame maxNumRows numRowBins j)
                                      (init (binMembers aFrame maxNumRows numRowBins j)))
                  (filter (\<lambda>j. binMembers aFrame maxNumRows numRowBins j \<noteq> [])
                     [k..<unat numRowBins])"
proof (induction init aFrame maxNumRows numRowBins k out rule: lowpassFilter_bins.induct)
  case (1 init aFrame maxNumRows numRowBins k out)
  show ?case
  proof (cases "k < unat numRowBins")
    case True
    then have upt: "[k..<unat numRowBins] = k # [Suc k..<unat numRowBins]"
      by (simp add: upt_conv_Cons)
    show ?thesis
      using True "1.IH" [OF True refl]
      by (subst lowpassFilter_bins.simps) (simp add: upt Let_def)
  next
    case False
    then show ?thesis
      by (subst lowpassFilter_bins.simps) simp
  qed
qed

text \<open>
  Claim C2. Whatever the frame and the parameters \<^verbatim>\<open>maxNumRows\<close> and \<^verbatim>\<open>numRowBins\<close>,
  \<open>lowpassFilter\<close> appends to its output exactly one point for each populated bin, the
  \<open>computeAverage\<close> of the members of that bin, and nothing for an empty bin. The number
  of appended points is therefore the number of populated bins, and it is at most
  \<^verbatim>\<open>numRowBins\<close>.
\<close>

theorem lowpassFilter_one_point_per_populated_bin:
  "lowpassFilter init out aFrame maxNumRows numRowBins =
     out @ map (\<lambda>k. computeAverage (binMembers aFrame maxNumRows numRowBins k)
                                      (init (binMembers aFrame maxNumRows numRowBins k)))
                  (populatedBins aFrame maxNumRows numRowBins)
   \<and> length (lowpassFilter init out aFrame maxNumRows numRowBins)
       = length out + length (populatedBins aFrame maxNumRows numRowBins)
   \<and> length (populatedBins aFrame maxNumRows numRowBins) \<le> unat numRowBins"
proof -
  have eq: "lowpassFilter init out aFrame maxNumRows numRowBins =
     out @ map (\<lambda>k. computeAverage (binMembers aFrame maxNumRows numRowBins k)
                                      (init (binMembers aFrame maxNumRows numRowBins k)))
                  (populatedBins aFrame maxNumRows numRowBins)"
    by (simp add: lowpassFilter_def populatedBins_def lowpassFilter_bins_eq)
  have "length (populatedBins aFrame maxNumRows numRowBins) \<le> length [0..<unat numRowBins]"
    unfolding populatedBins_def by (rule length_filter_le)
  then have le: "length (populatedBins aFrame maxNumRows numRowBins) \<le> unat numRowBins"
    by simp
  show ?thesis
    using le by (simp add: eq)
qed

theorem lowpassFilter_one_point_per_populated_bin_witness:
  "(let d = \<lparr>pixel = \<lparr>PixelLocation.x = Fin 10, y = Fin (1 / 2)\<rparr>,
             point = \<lparr>ColoredPoint.x = Fin 0, y = Fin 0, z = Fin 0, normal = Vector3_0,
                      r = 200, g = 10, b = 10\<rparr>,
             rotation = Fin 0, frame = 0, laserSide = 0, pseudoFrame = 0, index = 0\<rparr>;
        aFrame = [d, d\<lparr>pixel := \<lparr>PixelLocation.x = Fin 12, y = Fin (3 / 2)\<rparr>\<rparr>,
                  d\<lparr>pixel := \<lparr>PixelLocation.x = Fin 20, y = Fin 7\<rparr>\<rparr>]
    in populatedBins aFrame 8 4 = [0, 3]
       \<and> length (lowpassFilter hd [] aFrame 8 4) = 2
       \<and> length (populatedBins aFrame 8 4) \<le> unat (4 :: 32 word))"
  using lowpassFilter_one_point_per_populated_bin [of hd "[]"
      "[\<lparr>pixel = \<lparr>PixelLocation.x = Fin 10, y = Fin (1 / 2)\<rparr>,
             point = \<lparr>ColoredPoint.x = Fin 0, y = Fin 0, z = Fin 0, normal = Vector3_0,
                      r = 200, g = 10, b = 10\<rparr>,
             rotation = Fin 0, frame = 0, laserSide = 0, pseudoFrame = 0, index = 0\<rparr>,
        \<lparr>pixel = \<lparr>PixelLocation.x = Fin 12, y = Fin (3 / 2)\<rparr>,
             point = \<lparr>ColoredPoint.x = Fin 0, y = Fin 0, z = Fin 0, normal = Vector3_0,
                      r = 200, g = 10, b = 10\<rparr>,
             rotation = Fin 0, frame = 0, laserSide = 0, pseudoFrame = 0, index = 0\<rparr>,
        \<lparr>pixel = \<lparr>PixelLocation.x = Fin 20, y = Fin 7\<rparr>,
             point = \<lparr>ColoredPoint.x = Fin 0, y = Fin 0, z = Fin 0, normal = Vector3_0,
                      r = 200, g = 10, b = 10\<rparr>,
             rotation = Fin 0, frame = 0, laserSide = 0, pseudoFrame = 0, index = 0\<rparr>]" 8 4]
  by (simp add: Let_def populatedBins_def binMembers_def binSpan_def upt_conv_Cons)

text \<open>
  A frame of an 8-row image filtered into 4 bins of 2 rows each: the detections on rows
  0.5 and 1.5 share bin 0 and are averaged, the one on row 7 is alone in bin 3, and
  bins 1 and 2 are empty.
\<close>

lemma lowpassFilter_example:
  "map pixel (lowpassFilter hd []
     [p\<lparr>pixel := \<lparr>PixelLocation.x = Fin 10, y = Fin (1 / 2)\<rparr>\<rparr>,
      p\<lparr>pixel := \<lparr>PixelLocation.x = Fin 12, y = Fin (3 / 2)\<rparr>\<rparr>,
      p\<lparr>pixel := \<lparr>PixelLocation.x = Fin 20, y = Fin 7\<rparr>\<rparr>] 8 4)
   = [\<lparr>PixelLocation.x = Fin 11, y = Fin 1\<rparr>, \<lparr>PixelLocation.x = Fin 20, y = Fin 7\<rparr>]"
  by (simp add: lowpassFilter_def lowpassFilter_bins.simps binMembers_def binSpan_def
      Let_def computeAverage_def averageReal_def)

end
